theory Spec2Isabelle
  imports Complex_Main "HOL-Library.Multiset"
begin

section \<open>Data model\<close>

text \<open>
  A timestamp of the column \<open>date/time\<close> as pandas holds it after \<open>parse_dates\<close>:
  a count of nanoseconds since the epoch, timezone-naive, or the missing value \<open>NaT\<close>.
\<close>

datatype timestamp = NaT | Time int

text \<open>
  A coordinate is a double. The finite doubles are read as the reals they denote and
  \<open>NaN\<close> is kept apart; rounding, overflow and the infinities are not modelled, so
  nothing below is stated about the digits of a mean.
\<close>

datatype float64 = NaN | Fin real

record row =
  date_time :: timestamp
  lat :: float64
  lon :: float64

text \<open>
  A pandas Series is a sequence of values, each under its index label; a DataFrame of
  the three columns is a Series of rows. The labels are those of the default RangeIndex
  that \<open>read_csv\<close> builds, and a boolean selection keeps the label of every row it keeps.
\<close>

type_synonym 'a series = "(nat \<times> 'a) list"

type_synonym frame = "row series"

datatype error = IndexingError

section \<open>The pandas and numpy operations the program calls\<close>

text \<open>\<open>df["date/time"]\<close>, \<open>df["lat"]\<close>, \<open>df["lon"]\<close>: one column, under the same labels.\<close>

definition column :: "(row \<Rightarrow> 'a) \<Rightarrow> frame \<Rightarrow> 'a series" where
  "column f df = map (apsnd f) df"

text \<open>
  \<open>.dt.hour\<close> and \<open>.dt.minute\<close>: the field of each timestamp, \<open>None\<close> (pandas: NaN)
  where the timestamp is \<open>NaT\<close>. Integer division rounds down, as numpy's does.
\<close>

definition hour_of :: "timestamp \<Rightarrow> int option" where
  "hour_of t = (case t of NaT \<Rightarrow> None | Time ns \<Rightarrow> Some ((ns div 3600000000000) mod 24))"

definition minute_of :: "timestamp \<Rightarrow> int option" where
  "minute_of t = (case t of NaT \<Rightarrow> None | Time ns \<Rightarrow> Some ((ns div 60000000000) mod 60))"

definition dt_hour :: "timestamp series \<Rightarrow> int option series" where
  "dt_hour s = map (apsnd hour_of) s"

definition dt_minute :: "timestamp series \<Rightarrow> int option series" where
  "dt_minute s = map (apsnd minute_of) s"

text \<open>Elementwise comparison of a Series with a number; a comparison with NaN is false.\<close>

definition series_eq :: "int option series \<Rightarrow> int \<Rightarrow> bool series" where
  "series_eq s k = map (apsnd (\<lambda>v. case v of None \<Rightarrow> False | Some x \<Rightarrow> x = k)) s"

definition series_ge :: "int option series \<Rightarrow> int \<Rightarrow> bool series" where
  "series_ge s k = map (apsnd (\<lambda>v. case v of None \<Rightarrow> False | Some x \<Rightarrow> x \<ge> k)) s"

definition series_lt :: "int option series \<Rightarrow> int \<Rightarrow> bool series" where
  "series_lt s k = map (apsnd (\<lambda>v. case v of None \<Rightarrow> False | Some x \<Rightarrow> x < k)) s"

text \<open>\<open>a & b\<close> on two boolean Series under the same labels: the conjunction, entry by entry.\<close>

definition series_and :: "bool series \<Rightarrow> bool series \<Rightarrow> bool series" where
  "series_and a b = map (\<lambda>(x, y). (fst x, snd x \<and> snd y)) (zip a b)"

text \<open>
  \<open>frame[key]\<close> with a boolean Series as key. When the key carries the labels of the
  frame, it is used as it stands. Otherwise pandas reindexes the key to the labels of the
  frame, and raises IndexingError when a label of the frame is missing from the key.
  The rows whose entry is true are returned, in the order of the frame. The labels of a
  key are distinct, as those of every frame the program builds are: \<open>map_of\<close> reads the
  one entry under a label.
\<close>

fun reindex :: "bool series \<Rightarrow> nat list \<Rightarrow> bool list option" where
  "reindex key [] = Some []"
| "reindex key (l # ls) =
     (case map_of key l of
        None \<Rightarrow> None
      | Some b \<Rightarrow> (case reindex key ls of None \<Rightarrow> None | Some bs \<Rightarrow> Some (b # bs)))"

definition check_bool_indexer :: "nat list \<Rightarrow> bool series \<Rightarrow> error + bool list" where
  "check_bool_indexer index key =
     (if map fst key = index then Inr (map snd key)
      else (case reindex key index of None \<Rightarrow> Inl IndexingError | Some bs \<Rightarrow> Inr bs))"

definition getitem_bool :: "frame \<Rightarrow> bool series \<Rightarrow> error + frame" where
  "getitem_bool fr key =
     (case check_bool_indexer (map fst fr) key of
        Inl e \<Rightarrow> Inl e
      | Inr bs \<Rightarrow> Inr (map fst (filter snd (zip fr bs))))"

text \<open>
  \<open>np.histogram(a, bins=60, range=(0, 60))[0]\<close>: sixty bins of width one over [0, 60],
  the last one closed on the right. A value outside the range, and a NaN, is dropped;
  every other value adds one to the count of its bin.
\<close>

definition bin_index :: "int \<Rightarrow> nat option" where
  "bin_index v = (if 0 \<le> v \<and> v \<le> 60 then Some (if v = 60 then 59 else nat v) else None)"

definition bin_of :: "int option \<Rightarrow> nat option" where
  "bin_of v = (case v of None \<Rightarrow> None | Some x \<Rightarrow> bin_index x)"

definition count_into :: "int list \<Rightarrow> int option \<Rightarrow> int list" where
  "count_into hist v = (case bin_of v of None \<Rightarrow> hist | Some i \<Rightarrow> hist[i := hist ! i + 1])"

definition np_histogram :: "int option list \<Rightarrow> int list" where
  "np_histogram a = foldl count_into (replicate 60 0) a"

text \<open>
  \<open>np.average(a)\<close> without weights: the sum over the count. On the empty array numpy
  divides 0.0 by 0, warns, and returns NaN; it does not raise. A NaN among the values
  makes the sum NaN.
\<close>

fun fadd :: "float64 \<Rightarrow> float64 \<Rightarrow> float64" where
  "fadd (Fin a) (Fin b) = Fin (a + b)"
| "fadd _ _ = NaN"

fun fdiv_count :: "float64 \<Rightarrow> nat \<Rightarrow> float64" where
  "fdiv_count (Fin s) n = (if n = 0 then NaN else Fin (s / real n))"
| "fdiv_count NaN n = NaN"

definition np_average :: "float64 list \<Rightarrow> float64" where
  "np_average a = fdiv_count (foldl fadd (Fin 0) a) (length a)"

section \<open>The functions of the program\<close>

text \<open>
  \<open>load_data\<close>: at most 30000 rows after the header line, three columns, under the
  labels 0, 1, 2, ... The parsed lines of the file are the argument.
\<close>

definition load_data :: "row list \<Rightarrow> frame" where
  "load_data csv_rows = (let rs = take 30000 csv_rows in zip [0..<length rs] rs)"

text \<open>
  \<open>filterdata(df, hour_selected)\<close>: \<open>df[df["date/time"].dt.hour == hour_selected]\<close>;
  \<open>filterdata_key\<close> is the key inside the brackets.
\<close>

definition filterdata_key :: "frame \<Rightarrow> int \<Rightarrow> bool series" where
  "filterdata_key df hour_selected = series_eq (dt_hour (column date_time df)) hour_selected"

definition filterdata :: "frame \<Rightarrow> int \<Rightarrow> error + frame" where
  "filterdata df hour_selected = getitem_bool df (filterdata_key df hour_selected)"

text \<open>\<open>mpoint(lat, lon)\<close>: the pair of the two averages.\<close>

definition mpoint :: "float64 series \<Rightarrow> float64 series \<Rightarrow> error + (float64 \<times> float64)" where
  "mpoint la lo = Inr (np_average (map snd la), np_average (map snd lo))"

text \<open>
  \<open>histdata(df, hr)\<close>. The boolean key is computed from the argument \<open>df\<close>, and it
  selects rows of the module-level variable \<open>data\<close>, which the body reads: \<open>data\<close> is
  the first argument of the model. \<open>histdata_filtered\<close> is the local \<open>filtered\<close> of the
  body, \<open>histdata_key\<close> the key inside the brackets. The result has the columns
  \<open>minute\<close> (0 to 59) and \<open>pickups\<close>. The decorator \<open>st.cache_data\<close> of the three
  functions stores what a body returns under its arguments and returns it again for the
  same arguments; the definitions are the bodies.
\<close>

definition histdata_key :: "frame \<Rightarrow> int \<Rightarrow> bool series" where
  "histdata_key df hr =
     series_and (series_ge (dt_hour (column date_time df)) hr)
                (series_lt (dt_hour (column date_time df)) (hr + 1))"

definition histdata_filtered :: "frame \<Rightarrow> frame \<Rightarrow> int \<Rightarrow> error + frame" where
  "histdata_filtered data df hr = getitem_bool data (histdata_key df hr)"

definition histdata :: "frame \<Rightarrow> frame \<Rightarrow> int \<Rightarrow> error + (nat \<times> int) list" where
  "histdata data df hr =
     (case histdata_filtered data df hr of
        Inl e \<Rightarrow> Inl e
      | Inr filtered \<Rightarrow>
          Inr (zip [0..<60] (np_histogram (map snd (dt_minute (column date_time filtered))))))"

text \<open>
  \<open>map(data, lat, lon, zoom)\<close> writes one pydeck view to the page; the view is recorded by
  what it is built from: the rows of its layer, the centre and the zoom.
\<close>

record deck =
  deck_data :: frame
  latitude :: float64
  longitude :: float64
  zoom :: int

definition map_deck :: "frame \<Rightarrow> float64 \<Rightarrow> float64 \<Rightarrow> int \<Rightarrow> deck" where
  "map_deck fr la lo z = \<lparr>deck_data = fr, latitude = la, longitude = lo, zoom = z\<rparr>"

record page =
  decks :: "deck list"
  chart_data :: "(nat \<times> int) list"

text \<open>
  \<open>main()\<close>, for the rows of the file and the value of the slider: the module-level
  \<open>data\<close> is assigned the loaded frame, the midpoint is computed, four views are
  written, and the histogram is computed for the chart. An exception raised by a call
  ends the run. The titles, the layout and the drawing of the chart are left out.
\<close>

definition raja_bhoj :: "float64 \<times> float64" where
  "raja_bhoj = (Fin 23.290374, Fin 77.333208)"

definition railway :: "float64 \<times> float64" where
  "railway = (Fin 23.26776, Fin 77.414001)"

definition kamlapati :: "float64 \<times> float64" where
  "kamlapati = (Fin 23.2231274171, Fin 77.4397832066)"

definition zoom_level :: int where
  "zoom_level = 12"

definition main :: "row list \<Rightarrow> int \<Rightarrow> error + page" where
  "main csv_rows hour_selected =
     (let data = load_data csv_rows in
      case mpoint (column lat data) (column lon data) of
        Inl e \<Rightarrow> Inl e
      | Inr midpoint \<Rightarrow>
      (case filterdata data hour_selected of
        Inl e \<Rightarrow> Inl e
      | Inr f1 \<Rightarrow>
      (case filterdata data hour_selected of
        Inl e \<Rightarrow> Inl e
      | Inr f2 \<Rightarrow>
      (case filterdata data hour_selected of
        Inl e \<Rightarrow> Inl e
      | Inr f3 \<Rightarrow>
      (case filterdata data hour_selected of
        Inl e \<Rightarrow> Inl e
      | Inr f4 \<Rightarrow>
      (case histdata data data hour_selected of
        Inl e \<Rightarrow> Inl e
      | Inr chart \<Rightarrow>
          Inr \<lparr>decks =
                 [map_deck f1 (fst midpoint) (snd midpoint) 11,
                  map_deck f2 (fst raja_bhoj) (snd raja_bhoj) zoom_level,
                  map_deck f3 (fst railway) (snd railway) zoom_level,
                  map_deck f4 (fst kamlapati) (snd kamlapati) zoom_level],
               chart_data = chart\<rparr>))))))"

section \<open>Vocabulary of the properties\<close>

text \<open>
  A labelled row lies in hour \<open>h\<close> (in minute \<open>m\<close>) when its timestamp has this
  hour-of-day (minute-of-hour) component; a row without timestamp lies in none.
\<close>

definition in_hour :: "int \<Rightarrow> nat \<times> row \<Rightarrow> bool" where
  "in_hour h x = (hour_of (date_time (snd x)) = Some h)"

definition in_minute :: "int \<Rightarrow> nat \<times> row \<Rightarrow> bool" where
  "in_minute m x = (minute_of (date_time (snd x)) = Some m)"

text \<open>The number of rows of a frame that lie in hour \<open>hr\<close> and minute \<open>i\<close>.\<close>

definition pickups_at :: "frame \<Rightarrow> int \<Rightarrow> nat \<Rightarrow> int" where
  "pickups_at df hr i = int (length (filter (\<lambda>x. in_hour hr x \<and> in_minute (int i) x) df))"

text \<open>A row stamped with the given hour and minute of the first day, for the examples.\<close>

definition row_at :: "int \<Rightarrow> int \<Rightarrow> real \<Rightarrow> real \<Rightarrow> row" where
  "row_at h m a b =
     \<lparr>date_time = Time ((h * 3600 + m * 60) * 1000000000), lat = Fin a, lon = Fin b\<rparr>"

section \<open>Facts about the library operations\<close>

lemma hour_of_range: "hour_of t = Some h \<Longrightarrow> 0 \<le> h \<and> h < 24"
  by (auto simp: hour_of_def split: timestamp.splits)

lemma minute_of_range: "minute_of t = Some m \<Longrightarrow> 0 \<le> m \<and> m < 60"
  by (auto simp: minute_of_def split: timestamp.splits)

lemma select_by_own_key: "map fst (filter snd (zip xs (map p xs))) = filter p xs"
  by (induction xs) auto

lemma getitem_bool_own_labels:
  assumes "map fst key = map fst fr"
  shows "getitem_bool fr key = Inr (map fst (filter snd (zip fr (map snd key))))"
  using assms by (simp add: getitem_bool_def check_bool_indexer_def)

lemma eq_key_labels: "map fst (filterdata_key df h) = map fst df"
  by (simp add: filterdata_key_def series_eq_def dt_hour_def column_def)

lemma eq_key_values: "map snd (filterdata_key df h) = map (in_hour h) df"
  by (auto simp: filterdata_key_def series_eq_def dt_hour_def column_def in_hour_def
      split: option.splits)

lemma filterdata_eq_filter: "filterdata df h = Inr (filter (in_hour h) df)"
  by (simp add: filterdata_def getitem_bool_own_labels eq_key_labels eq_key_values
      select_by_own_key)

lemma histdata_key_eq: "histdata_key df hr = filterdata_key df hr"
  by (induction df)
    (auto simp: histdata_key_def filterdata_key_def series_and_def series_ge_def series_lt_def
      series_eq_def dt_hour_def column_def split: option.splits)

lemma histdata_filtered_own: "histdata_filtered df df hr = Inr (filter (in_hour hr) df)"
  using filterdata_eq_filter [of df hr]
  by (simp add: histdata_filtered_def histdata_key_eq filterdata_def)

lemma length_count_into: "length (count_into hist v) = length hist"
  by (simp add: count_into_def split: option.splits)

lemma length_foldl_count_into: "length (foldl count_into hist a) = length hist"
  by (induction a arbitrary: hist) (simp_all add: length_count_into)

lemma length_np_histogram: "length (np_histogram a) = 60"
  by (simp add: np_histogram_def length_foldl_count_into)

lemma bin_of_less: "bin_of v = Some i \<Longrightarrow> i < 60"
  by (auto simp: bin_of_def bin_index_def split: option.splits if_splits)

lemma nth_count_into:
  "i < length hist \<Longrightarrow>
   count_into hist v ! i = hist ! i + (if bin_of v = Some i then 1 else 0)"
  by (auto simp: count_into_def split: option.splits)

lemma nth_foldl_count_into:
  "i < length hist \<Longrightarrow>
   foldl count_into hist a ! i = hist ! i + int (length (filter (\<lambda>v. bin_of v = Some i) a))"
  by (induction a arbitrary: hist) (simp_all add: nth_count_into length_count_into)

lemma nth_np_histogram:
  "i < 60 \<Longrightarrow> np_histogram a ! i = int (length (filter (\<lambda>v. bin_of v = Some i) a))"
  by (simp add: np_histogram_def nth_foldl_count_into)

lemma sum_list_update_add:
  "i < length (xs::int list) \<Longrightarrow> sum_list (xs[i := xs ! i + d]) = sum_list xs + d"
  by (induction xs arbitrary: i) (auto split: nat.splits)

lemma sum_list_count_into:
  "length hist = 60 \<Longrightarrow>
   sum_list (count_into hist v) = sum_list hist + (if bin_of v = None then 0 else 1)"
  by (auto simp: count_into_def sum_list_update_add dest: bin_of_less split: option.splits)

lemma sum_list_foldl_count_into:
  "length hist = 60 \<Longrightarrow>
   sum_list (foldl count_into hist a)
     = sum_list hist + int (length (filter (\<lambda>v. bin_of v \<noteq> None) a))"
  by (induction a arbitrary: hist) (simp_all add: sum_list_count_into length_count_into)

lemma sum_list_np_histogram:
  "sum_list (np_histogram a) = int (length (filter (\<lambda>v. bin_of v \<noteq> None) a))"
  by (simp add: np_histogram_def sum_list_foldl_count_into sum_list_replicate)

lemma minutes_binned:
  "filter (\<lambda>v. bin_of v \<noteq> None) (map (\<lambda>x. minute_of (date_time (snd x))) fr)
     = map (\<lambda>x. minute_of (date_time (snd x))) (filter (\<lambda>x. date_time (snd x) \<noteq> NaT) fr)"
  by (induction fr)
     (auto simp: bin_of_def bin_index_def minute_of_def split: timestamp.splits option.splits)

lemma bin_of_minute:
  "i < 60 \<Longrightarrow> (bin_of (minute_of t) = Some i) = (minute_of t = Some (int i))"
  by (cases t) (auto simp: bin_of_def bin_index_def minute_of_def)

lemma minute_column:
  "map snd (dt_minute (column date_time fr)) = map (\<lambda>x. minute_of (date_time (snd x))) fr"
  by (simp add: dt_minute_def column_def comp_def)

lemma in_hour_not_NaT: "in_hour h x \<Longrightarrow> date_time (snd x) \<noteq> NaT"
  by (auto simp: in_hour_def hour_of_def)

lemma histdata_own:
  "histdata df df hr = Inr (zip [0..<60] (map (pickups_at df hr) [0..<60]))"
proof -
  let ?ms = "map snd (dt_minute (column date_time (filter (in_hour hr) df)))"
  have "np_histogram ?ms = map (pickups_at df hr) [0..<60]"
  proof (rule nth_equalityI)
    show "length (np_histogram ?ms) = length (map (pickups_at df hr) [0..<60])"
      by (simp add: length_np_histogram)
  next
    fix i assume "i < length (np_histogram ?ms)"
    then have i: "i < 60" by (simp add: length_np_histogram)
    have "np_histogram ?ms ! i
            = int (length (filter (\<lambda>x. minute_of (date_time (snd x)) = Some (int i))
                 (filter (in_hour hr) df)))"
      using i by (simp add: nth_np_histogram minute_column filter_map comp_def bin_of_minute)
    also have "\<dots> = pickups_at df hr i"
      by (simp add: pickups_at_def in_minute_def conj_commute)
    finally show "np_histogram ?ms ! i = map (pickups_at df hr) [0..<60] ! i"
      using i by simp
  qed
  then show ?thesis
    by (simp add: histdata_def histdata_filtered_own)
qed

lemma histdata_own_raw:
  "histdata df df hr =
     Inr (zip [0..<60] (np_histogram (map (\<lambda>x. minute_of (date_time (snd x)))
                                        (filter (in_hour hr) df))))"
  by (simp add: histdata_def histdata_filtered_own minute_column)

lemma pickups_at_nonneg: "0 \<le> pickups_at df hr i"
  by (simp add: pickups_at_def)

lemma pickups_at_none:
  "\<not> (\<exists>x\<in>set df. in_hour hr x \<and> in_minute (int i) x) \<Longrightarrow> pickups_at df hr i = 0"
  by (auto simp: pickups_at_def filter_empty_conv)

lemma pickups_at_remove1_hit:
  assumes "x \<in> set df" "in_hour hr x" "in_minute (int i) x"
  shows "pickups_at df hr i = pickups_at (remove1 x df) hr i + 1"
proof -
  let ?P = "\<lambda>x. in_hour hr x \<and> in_minute (int i) x"
  have "x \<in> set (filter ?P df)" using assms by simp
  then have "length (remove1 x (filter ?P df)) = length (filter ?P df) - 1"
    and "0 < length (filter ?P df)"
    by (simp add: length_remove1, rule length_pos_if_in_set)
  then have "length (filter ?P df) = length (remove1 x (filter ?P df)) + 1"
    by linarith
  then show ?thesis
    by (simp add: pickups_at_def filter_remove1)
qed

lemma pickups_at_remove1_miss:
  assumes "\<not> (in_hour hr x \<and> in_minute (int i) x)"
  shows "pickups_at (remove1 x df) hr i = pickups_at df hr i"
proof -
  let ?P = "\<lambda>x. in_hour hr x \<and> in_minute (int i) x"
  have "x \<notin> set (filter ?P df)" using assms by simp
  then have "remove1 x (filter ?P df) = filter ?P df" by (rule remove1_idem)
  then show ?thesis by (simp add: pickups_at_def filter_remove1)
qed

text \<open>
  The program on three rows with the hours 5, 5, 6 and the minutes 10, 10, 45: the hour 5
  selects the first two rows, its histogram has 2 in bucket 10 and 0 elsewhere, and the
  midpoint of the two rows is the mean of their coordinates.
\<close>

lemma three_rows_scenario:
  "filterdata [(0, row_at 5 10 1 4), (1, row_at 5 10 3 8), (2, row_at 6 45 5 5)] 5
     = Inr [(0, row_at 5 10 1 4), (1, row_at 5 10 3 8)] \<and>
   histdata [(0, row_at 5 10 1 4), (1, row_at 5 10 3 8), (2, row_at 6 45 5 5)]
            [(0, row_at 5 10 1 4), (1, row_at 5 10 3 8), (2, row_at 6 45 5 5)] 5
     = Inr (zip [0..<60] ((replicate 60 0)[10 := 2])) \<and>
   mpoint (column lat [(0, row_at 5 10 1 4), (1, row_at 5 10 3 8)])
          (column lon [(0, row_at 5 10 1 4), (1, row_at 5 10 3 8)]) = Inr (Fin 2, Fin 6)"
  by (simp add: filterdata_eq_filter histdata_own_raw in_hour_def hour_of_def minute_of_def
      row_at_def np_histogram_def count_into_def bin_of_def bin_index_def mpoint_def
      column_def np_average_def)

section \<open>The histogram when the module-level data is the frame passed\<close>

text \<open>
  \<open>main\<close> passes the module-level \<open>data\<close> itself to \<open>histdata\<close>. For this one
  configuration, \<open>histdata B B h\<close>, the histogram has sixty buckets whose counts add up to
  the number of rows \<open>filterdata\<close> returns.
\<close>

lemma diagonal_sum_eq_filter_count:
  "\<exists>chart F. histdata B B h = Inr chart \<and> filterdata B h = Inr F \<and> length chart = 60 \<and>
     sum_list (map snd chart) = int (length F)"
proof -
  let ?F = "filter (in_hour h) B"
  let ?ms = "map (\<lambda>x. minute_of (date_time (snd x))) ?F"
  have stamped: "filter (\<lambda>x. date_time (snd x) \<noteq> NaT) ?F = ?F"
    by (rule filter_True) (auto dest: in_hour_not_NaT)
  have "sum_list (np_histogram ?ms) = int (length (filter (\<lambda>v. bin_of v \<noteq> None) ?ms))"
    by (rule sum_list_np_histogram)
  also have "filter (\<lambda>v. bin_of v \<noteq> None) ?ms = ?ms"
    unfolding minutes_binned stamped ..
  finally have "sum_list (np_histogram ?ms) = int (length ?F)"
    by simp
  then show ?thesis
    by (simp add: histdata_own_raw filterdata_eq_filter length_np_histogram)
qed

text \<open>
  In the same configuration the sixty buckets stand under the minutes 0 to 59, none is
  negative, and a bucket without a matching row is 0.
\<close>

lemma diagonal_sixty_buckets:
  "\<exists>hist. histdata B B h = Inr (zip [0..<60] hist) \<and> length hist = 60 \<and>
     (\<forall>c\<in>set hist. 0 \<le> c) \<and>
     (\<forall>i<60. \<not> (\<exists>x\<in>set B. in_hour h x \<and> in_minute (int i) x) \<longrightarrow> hist ! i = 0) \<and>
     (\<not> (\<exists>x\<in>set B. in_hour h x) \<longrightarrow> hist = replicate 60 0) \<and>
     histdata [] [] h = Inr (zip [0..<60] (replicate 60 0))"
proof -
  let ?hist = "map (pickups_at B h) [0..<60]"
  have nonneg: "\<forall>c\<in>set ?hist. 0 \<le> c"
    by (auto simp: pickups_at_nonneg)
  have zero: "\<forall>i<60. \<not> (\<exists>x\<in>set B. in_hour h x \<and> in_minute (int i) x) \<longrightarrow> ?hist ! i = 0"
    using pickups_at_none by simp
  have all_zero: "?hist = replicate 60 0" if "\<not> (\<exists>x\<in>set B. in_hour h x)"
  proof (rule nth_equalityI)
    show "length ?hist = length (replicate 60 (0::int))" by simp
  next
    fix i assume "i < length ?hist"
    then have "i < 60" by simp
    moreover have "pickups_at B h i = 0"
      using that by (intro pickups_at_none) blast
    ultimately show "?hist ! i = replicate 60 0 ! i" by simp
  qed
  have "map (pickups_at [] h) [0..<60] = replicate 60 0"
    by (rule nth_equalityI) (simp_all add: pickups_at_def)
  then have empty: "histdata [] [] h = Inr (zip [0..<60] (replicate 60 0))"
    by (simp add: histdata_own)
  show ?thesis
    using nonneg zero all_zero empty
    by (intro exI [of _ ?hist]) (simp add: histdata_own)
qed

text \<open>
  In the same configuration a row stamped 23:59 adds one to bucket 59 of hour 23 and
  nothing to hour 0.
\<close>

lemma diagonal_23_59_counted:
  assumes "x \<in> set B" and "in_hour 23 x" and "in_minute 59 x"
  shows "\<exists>F F0 chart chart'.
     filterdata B 23 = Inr F \<and> x \<in> set F \<and>
     filterdata B 0 = Inr F0 \<and> x \<notin> set F0 \<and>
     histdata B B 23 = Inr chart \<and>
     histdata (remove1 x B) (remove1 x B) 23 = Inr chart' \<and>
     length chart = 60 \<and> length chart' = 60 \<and>
     chart ! 59 = (59, snd (chart' ! 59) + 1) \<and>
     (\<forall>i<59. chart ! i = chart' ! i) \<and>
     histdata B B 0 = histdata (remove1 x B) (remove1 x B) 0"
proof -
  let ?B' = "remove1 x B"
  let ?c = "zip [0..<60] (map (pickups_at B 23) [0..<60])"
  let ?c' = "zip [0..<60] (map (pickups_at ?B' 23) [0..<60])"
  have not0: "\<not> in_hour 0 x"
    using assms(2) by (simp add: in_hour_def)
  have hit: "pickups_at B 23 59 = pickups_at ?B' 23 59 + 1"
    using pickups_at_remove1_hit [of x B 23 59] assms by simp
  have miss: "pickups_at ?B' 23 i = pickups_at B 23 i" if "i < 59" for i
  proof -
    have "\<not> in_minute (int i) x"
      using assms(3) that by (simp add: in_minute_def)
    then show ?thesis by (simp add: pickups_at_remove1_miss)
  qed
  have hour0: "map (pickups_at ?B' 0) [0..<60] = map (pickups_at B 0) [0..<60]"
    using not0 by (simp add: pickups_at_remove1_miss)
  have a: "filterdata B 23 = Inr (filter (in_hour 23) B)" "x \<in> set (filter (in_hour 23) B)"
    using assms by (simp_all add: filterdata_eq_filter)
  have b: "filterdata B 0 = Inr (filter (in_hour 0) B)" "x \<notin> set (filter (in_hour 0) B)"
    using not0 by (simp_all add: filterdata_eq_filter)
  have c: "histdata B B 23 = Inr ?c" "histdata ?B' ?B' 23 = Inr ?c'"
    by (simp_all add: histdata_own)
  have d: "length ?c = 60" "length ?c' = 60" by simp_all
  have e: "?c ! 59 = (59, snd (?c' ! 59) + 1)"
    using hit by simp
  have f: "\<forall>i<59. ?c ! i = ?c' ! i"
    using miss by simp
  have g: "histdata B B 0 = histdata ?B' ?B' 0"
    unfolding histdata_own hour0 ..
  from a b c d e f g show ?thesis by blast
qed

section \<open>The properties\<close>

text \<open>
  Claim C1. For every frame \<open>B\<close> and every hour \<open>h\<close> (in particular every \<open>h\<close> from 0 to
  23), \<open>filterdata\<close> returns, without raising, exactly the rows of \<open>B\<close> that lie in hour
  \<open>h\<close>, each as often as \<open>B\<close> holds it and in the order of \<open>B\<close>; these rows together with
  the rows that do not lie in hour \<open>h\<close> make up \<open>B\<close>, no row lost and none duplicated.
\<close>

theorem filterdata_exact_partition:
  "filterdata B h = Inr (filter (in_hour h) B) \<and>
   mset (filter (in_hour h) B) + mset (filter (\<lambda>x. \<not> in_hour h x) B) = mset B"
  by (simp add: filterdata_eq_filter)

text \<open>
  Claim C2 against the code. The claim holds of \<open>histdata\<close> only when the module-level
  \<open>data\<close> is the frame passed. With \<open>data\<close> holding one row stamped 05:10 and a \<open>df\<close> of
  two rows stamped 05:10 and 05:20, the hour 5 selects both rows of \<open>df\<close> in \<open>filterdata\<close>,
  and the buckets of \<open>histdata\<close> add up to 1: the key of \<open>df\<close> is cut to the one label of
  \<open>data\<close> and the row of \<open>data\<close> is counted.
\<close>

theorem histdata_sum_misses_filter_count:
  "histdata [(0, row_at 5 10 1 1)] [(0, row_at 5 10 1 1), (1, row_at 5 20 2 2)] 5
     = Inr (zip [0..<60] ((replicate 60 0)[10 := 1])) \<and>
   sum_list ((replicate 60 0)[10 := (1::int)]) = 1 \<and>
   filterdata [(0, row_at 5 10 1 1), (1, row_at 5 20 2 2)] 5
     = Inr [(0, row_at 5 10 1 1), (1, row_at 5 20 2 2)]"
proof -
  have "sum_list ((replicate 60 (0::int))[10 := replicate 60 0 ! 10 + 1])
          = sum_list (replicate 60 0) + 1"
    by (rule sum_list_update_add) simp
  then have "sum_list ((replicate 60 0)[10 := (1::int)]) = 1"
    by (simp add: sum_list_replicate)
  then show ?thesis
    by (simp add: histdata_def histdata_filtered_def histdata_key_eq filterdata_def
        filterdata_key_def series_eq_def dt_hour_def dt_minute_def column_def getitem_bool_def
        check_bool_indexer_def row_at_def hour_of_def minute_of_def np_histogram_def
        count_into_def bin_of_def bin_index_def)
qed

text \<open>
  Claim C3 against the code. With the module-level \<open>data\<close> holding one row stamped
  05:10, \<open>histdata\<close> of the empty frame raises IndexingError and returns no histogram;
  and for a \<open>df\<close> of one row stamped 06:20 and the hour 6, bucket 10 is 1 although no row
  of \<open>df\<close> lies in minute 10, and bucket 20 is 0.
\<close>

theorem histdata_buckets_of_module_data:
  "histdata [(0, row_at 5 10 1 1)] [] 6 = Inl IndexingError \<and>
   histdata [(0, row_at 5 10 1 1)] [(0, row_at 6 20 1 1)] 6
     = Inr (zip [0..<60] ((replicate 60 0)[10 := 1]))"
  by (simp add: histdata_def histdata_filtered_def histdata_key_eq filterdata_key_def
      series_eq_def dt_hour_def dt_minute_def column_def getitem_bool_def
      check_bool_indexer_def row_at_def hour_of_def minute_of_def np_histogram_def
      count_into_def bin_of_def bin_index_def)

text \<open>
  Claim C4, as stated, fails on the empty batch: \<open>mpoint\<close> on the columns of the frame
  loaded from a file without rows raises nothing and returns the pair (NaN, NaN).
\<close>

theorem mpoint_empty_returns_nan:
  "mpoint (column lat (load_data [])) (column lon (load_data [])) = Inr (NaN, NaN)"
  by (simp add: mpoint_def column_def np_average_def load_data_def)

text \<open>
  Claim C4, amended. \<open>mpoint\<close> never raises: for every frame \<open>B\<close>, empty or not, it
  returns a (latitude, longitude) pair, and for the empty frame both components are NaN.
\<close>

theorem mpoint_never_raises:
  "(\<exists>p. mpoint (column lat B) (column lon B) = Inr p) \<and>
   mpoint (column lat []) (column lon []) = Inr (NaN, NaN)"
  by (simp add: mpoint_def column_def np_average_def)

text \<open>
  Claim C6. For every frame \<open>B\<close> and every integer hour \<open>h\<close>, the key that \<open>histdata\<close>
  builds from the range test (hour at least \<open>h\<close> and below \<open>h + 1\<close>) is the key that
  \<open>filterdata\<close> builds from the equality test, and, with the module-level \<open>data\<close> holding
  \<open>B\<close>, the rows \<open>histdata\<close> selects are the rows \<open>filterdata\<close> returns.
\<close>

theorem histdata_key_is_filterdata_key:
  "histdata_key B h = filterdata_key B h \<and> histdata_filtered B B h = filterdata B h"
  by (simp add: histdata_key_eq histdata_filtered_def filterdata_def)

text \<open>
  Claim C7 against the code. \<open>filterdata\<close> is a function of its two arguments. \<open>histdata\<close>
  is not: its body indexes the module-level \<open>data\<close>, not \<open>df\<close>. With the same arguments,
  a one-row frame stamped 05:20 and the hour 5, the result is the histogram of \<open>data\<close>:
  bucket 10 when \<open>data\<close> holds a row stamped 05:10, bucket 30 when it holds a row stamped
  05:30, and bucket 20 in neither. With an empty \<open>df\<close> and a non-empty \<open>data\<close> the call
  raises IndexingError. (\<open>st.cache_data\<close> stores what the body returns under the
  arguments; the body is what is modelled.)
\<close>

theorem histdata_reads_module_data:
  "histdata [(0, row_at 5 10 1 1)] [(0, row_at 5 20 1 1)] 5
     = Inr (zip [0..<60] ((replicate 60 0)[10 := 1])) \<and>
   histdata [(0, row_at 5 30 1 1)] [(0, row_at 5 20 1 1)] 5
     = Inr (zip [0..<60] ((replicate 60 0)[30 := 1])) \<and>
   histdata [(0, row_at 5 10 1 1)] [] 5 = Inl IndexingError"
  by (simp add: histdata_def histdata_filtered_def histdata_key_eq filterdata_key_def
      series_eq_def dt_hour_def dt_minute_def column_def getitem_bool_def
      check_bool_indexer_def row_at_def hour_of_def minute_of_def np_histogram_def
      count_into_def bin_of_def bin_index_def)

text \<open>
  Claim C8 against the code. For a \<open>df\<close> of one row stamped 23:59 and the hour 23,
  \<open>filterdata\<close> returns the row. With the module-level \<open>data\<close> holding one row stamped
  05:10, \<open>histdata\<close> counts that row of \<open>data\<close> in bucket 10 and leaves bucket 59 at 0.
\<close>

theorem histdata_misses_23_59:
  "filterdata [(0, row_at 23 59 1 1)] 23 = Inr [(0, row_at 23 59 1 1)] \<and>
   histdata [(0, row_at 5 10 1 1)] [(0, row_at 23 59 1 1)] 23
     = Inr (zip [0..<60] ((replicate 60 0)[10 := 1]))"
  by (simp add: histdata_def histdata_filtered_def histdata_key_eq filterdata_def
      filterdata_key_def series_eq_def dt_hour_def dt_minute_def column_def getitem_bool_def
      check_bool_indexer_def row_at_def hour_of_def minute_of_def np_histogram_def
      count_into_def bin_of_def bin_index_def)

text \<open>
  Claim C9, as stated, fails: for a file of two rows, one at 05:00 with coordinates (1, 1)
  and one at 06:00 with coordinates (3, 3), and the slider at 5, the first view is centred
  on (2, 2), the mean over both rows, while the rows of the selected hour have the
  midpoint (1, 1). (Both means are exact in double arithmetic.)
\<close>

theorem main_midpoint_not_of_hour_window:
  "main [row_at 5 0 1 1, row_at 6 0 3 3] 5 =
     Inr \<lparr>decks =
            [map_deck [(0, row_at 5 0 1 1)] (Fin 2) (Fin 2) 11,
             map_deck [(0, row_at 5 0 1 1)] (fst raja_bhoj) (snd raja_bhoj) zoom_level,
             map_deck [(0, row_at 5 0 1 1)] (fst railway) (snd railway) zoom_level,
             map_deck [(0, row_at 5 0 1 1)] (fst kamlapati) (snd kamlapati) zoom_level],
          chart_data = zip [0..<60] ((replicate 60 0)[0 := 1])\<rparr> \<and>
   filterdata (load_data [row_at 5 0 1 1, row_at 6 0 3 3]) 5 = Inr [(0, row_at 5 0 1 1)] \<and>
   mpoint (column lat [(0, row_at 5 0 1 1)]) (column lon [(0, row_at 5 0 1 1)])
     = Inr (Fin 1, Fin 1)"
proof -
  let ?D = "[(0::nat, row_at 5 0 1 1), (Suc 0, row_at 6 0 3 3)]"
  have ld: "load_data [row_at 5 0 1 1, row_at 6 0 3 3] = ?D"
    by (simp add: load_data_def upt_rec)
  have fd: "filterdata ?D 5 = Inr [(0, row_at 5 0 1 1)]"
    by (simp add: filterdata_eq_filter in_hour_def hour_of_def row_at_def)
  have hd: "histdata ?D ?D 5 = Inr (zip [0..<60] ((replicate 60 0)[0 := 1]))"
    by (simp add: histdata_own_raw in_hour_def hour_of_def minute_of_def row_at_def
        np_histogram_def count_into_def bin_of_def bin_index_def)
  have mp: "mpoint (column lat ?D) (column lon ?D) = Inr (Fin 2, Fin 2)"
    by (simp add: mpoint_def column_def np_average_def row_at_def)
  have mp1: "mpoint (column lat [(0::nat, row_at 5 0 1 1)]) (column lon [(0, row_at 5 0 1 1)])
     = Inr (Fin 1, Fin 1)"
    by (simp add: mpoint_def column_def np_average_def row_at_def)
  show ?thesis
    by (simp only: main_def Let_def ld fd hd mp mp1 sum.case fst_conv snd_conv simp_thms)
qed

text \<open>
  Claim C9, amended. In \<open>main\<close> the midpoint is \<open>mpoint\<close> applied to the columns of the
  whole loaded frame, whatever the selected hour; it centres the first view. The output
  of \<open>filterdata\<close> for the selected hour is the layer of each of the four views, and the
  chart is \<open>histdata\<close> of the loaded frame. The run raises nothing.
\<close>

theorem main_midpoint_of_whole_batch:
  "\<exists>F chart la lo.
     mpoint (column lat (load_data csv_rows)) (column lon (load_data csv_rows)) = Inr (la, lo) \<and>
     filterdata (load_data csv_rows) h = Inr F \<and>
     histdata (load_data csv_rows) (load_data csv_rows) h = Inr chart \<and>
     main csv_rows h =
       Inr \<lparr>decks =
              [map_deck F la lo 11,
               map_deck F (fst raja_bhoj) (snd raja_bhoj) zoom_level,
               map_deck F (fst railway) (snd railway) zoom_level,
               map_deck F (fst kamlapati) (snd kamlapati) zoom_level],
            chart_data = chart\<rparr>"
  by (simp add: main_def Let_def mpoint_def filterdata_eq_filter histdata_own)

text \<open>
  Claim C10. For every frame \<open>B\<close> and every integer hour \<open>h\<close> below 0 or above 23,
  \<open>filterdata\<close> raises nothing and returns the empty frame.
\<close>

theorem filterdata_outside_day:
  "h < 0 \<or> 23 < h \<Longrightarrow> filterdata B h = Inr []"
  by (auto simp: filterdata_eq_filter filter_empty_conv in_hour_def dest!: hour_of_range)

text \<open>The same on a frame of two rows, for the hours 24 and -1.\<close>

theorem filterdata_outside_day_witness:
  "filterdata [(0, row_at 5 10 1 1), (1, row_at 23 59 2 2)] 24 = Inr [] \<and>
   filterdata [(0, row_at 5 10 1 1), (1, row_at 23 59 2 2)] (- 1) = Inr []"
  using filterdata_outside_day [of 24 "[(0, row_at 5 10 1 1), (1, row_at 23 59 2 2)]"]
    filterdata_outside_day [of "- 1" "[(0, row_at 5 10 1 1), (1, row_at 23 59 2 2)]"]
  by simp

end
